theory Spec2Isabelle
  imports Main "HOL-Library.Word"
begin

unbundle bit_operations_syntax

section \<open>The watch command of jag: cmd/jag/commands/watch.go\<close>

text \<open>
  The file embeds \<^verbatim>\<open>watcher\<close> (the watch set), \<^verbatim>\<open>parseDependeniesToDirs\<close>,
  \<^verbatim>\<open>updateWatcher\<close>, the event loop returned by \<^verbatim>\<open>onWatchChanges\<close> and the start
  of \<^verbatim>\<open>WatchCmd\<close>. What the operating system and the Go library answer (symbolic-link
  resolution, \<^verbatim>\<open>os.Stat\<close>, the fsnotify primitive, the analyzer process) is a parameter
  of the functions that ask.
\<close>

subsection \<open>Paths: \<^verbatim>\<open>filepath.Clean\<close> and \<^verbatim>\<open>filepath.Dir\<close> on a slash-separated system\<close>

datatype error =
    ErrNotExist string
  | ErrPermission string
  | ErrOther string
  | ErrNoSuchFile string
  | ErrCantStat string error
  | ErrCantWatchDir string

fun splitOn :: "char \<Rightarrow> string \<Rightarrow> string list" where
  "splitOn c [] = [[]]"
| "splitOn c (x # xs) =
     (if x = c then [] # splitOn c xs
      else (case splitOn c xs of [] \<Rightarrow> [[x]] | w # ws \<Rightarrow> (x # w) # ws))"

fun joinSlash :: "string list \<Rightarrow> string" where
  "joinSlash [] = []"
| "joinSlash [e] = e"
| "joinSlash (e # es) = e @ CHR ''/'' # joinSlash es"

text \<open>
  \<^verbatim>\<open>Clean\<close> works element by element: empty elements and \<^verbatim>\<open>.\<close> are dropped, \<^verbatim>\<open>..\<close>
  removes the element before it, stays when there is none to remove in a relative path
  and is dropped at the root. \<open>acc\<close> holds the elements kept so far, last one first.
\<close>

fun cleanElems :: "bool \<Rightarrow> string list \<Rightarrow> string list \<Rightarrow> string list" where
  "cleanElems rooted acc [] = rev acc"
| "cleanElems rooted acc (e # es) =
     (if e = [] \<or> e = ''.'' then cleanElems rooted acc es
      else if e = ''..'' then
        (case acc of
           [] \<Rightarrow> if rooted then cleanElems rooted [] es else cleanElems rooted [e] es
         | t # ts \<Rightarrow> if t = ''..'' then cleanElems rooted (e # acc) es
                     else cleanElems rooted ts es)
      else cleanElems rooted (e # acc) es)"

definition Clean :: "string \<Rightarrow> string" where
  "Clean p =
     (let rooted = (case p of [] \<Rightarrow> False | c # _ \<Rightarrow> c = CHR ''/'');
          s = joinSlash (cleanElems rooted [] (splitOn (CHR ''/'') p))
      in if rooted then CHR ''/'' # s else if s = [] then ''.'' else s)"

text \<open>\<^verbatim>\<open>Dir\<close> cleans the path up to and including its last separator.\<close>

definition Dir :: "string \<Rightarrow> string" where
  "Dir p = Clean (rev (dropWhile (\<lambda>c. c \<noteq> CHR ''/'') (rev p)))"

subsection \<open>The operating system as the watcher sees it\<close>

text \<open>
  \<open>EvalSymlinks\<close> is \<^verbatim>\<open>filepath.EvalSymlinks\<close>, \<open>StatOk\<close> says whether \<^verbatim>\<open>os.Stat\<close>
  returns no error, \<open>AddErr\<close> and \<open>RemoveErr\<close> say whether the fsnotify primitive refuses
  to register or unregister a directory.
\<close>

record os =
  EvalSymlinks :: "string \<Rightarrow> error + string"
  StatOk :: "string \<Rightarrow> bool"
  AddErr :: "string \<Rightarrow> error option"
  RemoveErr :: "string \<Rightarrow> error option"

text \<open>
  The fsnotify watcher: the directories registered with the operating system, and every
  \<^verbatim>\<open>Add\<close> call made, in order. A call that fails changes no registration.
\<close>

record fsnotify =
  registered :: "string set"
  adds :: "string list"

definition fsAdd :: "os \<Rightarrow> string \<Rightarrow> fsnotify \<Rightarrow> error option \<times> fsnotify" where
  "fsAdd sys d f =
     (case AddErr sys d of
        Some e \<Rightarrow> (Some e, f\<lparr>adds := adds f @ [d]\<rparr>)
      | None \<Rightarrow> (None, f\<lparr>registered := insert d (registered f), adds := adds f @ [d]\<rparr>))"

subsection \<open>The watcher\<close>

text \<open>
  \<^verbatim>\<open>dirs\<close> and \<^verbatim>\<open>paths\<close> are Go maps to the empty struct, that is sets of keys. A nil map
  reads as the empty map, and \<^verbatim>\<open>delete\<close> and \<^verbatim>\<open>range\<close> accept it, so nil is \<open>{}\<close>.
\<close>

record watcher =
  fsw :: fsnotify
  dirs :: "string set"
  paths :: "string set"

text \<open>\<^verbatim>\<open>newWatcher\<close> sets \<^verbatim>\<open>paths\<close> to an empty map and leaves \<^verbatim>\<open>dirs\<close> nil.\<close>

definition newWatcher :: watcher where
  "newWatcher = \<lparr>fsw = \<lparr>registered = {}, adds = []\<rparr>, dirs = {}, paths = {}\<rparr>"

definition CountPaths :: "watcher \<Rightarrow> nat" where
  "CountPaths w = card (paths w)"

text \<open>The first loop of \<^verbatim>\<open>Watch\<close>: every path is resolved, the first error returns.\<close>

fun evalAll :: "os \<Rightarrow> string list \<Rightarrow> error + string list" where
  "evalAll sys [] = Inr []"
| "evalAll sys (p # ps) =
     (case EvalSymlinks sys p of
        Inl e \<Rightarrow> Inl e
      | Inr q \<Rightarrow> (case evalAll sys ps of Inl e \<Rightarrow> Inl e | Inr qs \<Rightarrow> Inr (q # qs)))"

text \<open>
  The second loop: the path enters \<^verbatim>\<open>w.paths\<close>, its directory is added to the primitive
  when \<^verbatim>\<open>w.dirs\<close> does not hold it (the error of \<^verbatim>\<open>Add\<close> is dropped), and both enter
  the candidate sets. Nothing is stored in \<^verbatim>\<open>w.dirs\<close>.
\<close>

fun addLoop ::
  "os \<Rightarrow> string list \<Rightarrow> watcher \<times> string set \<times> string set \<Rightarrow>
   watcher \<times> string set \<times> string set" where
  "addLoop sys [] st = st"
| "addLoop sys (p # ps) (w, candidateDirs, candidates) =
     (let dir = Dir p;
          w1 = w\<lparr>paths := insert p (paths w)\<rparr>;
          w2 = (if dir \<notin> dirs w1 then w1\<lparr>fsw := snd (fsAdd sys dir (fsw w1))\<rparr> else w1)
      in addLoop sys ps (w2, insert dir candidateDirs, insert p candidates))"

text \<open>
  The removals range over a map, in no fixed order; each one touches its own key only, so
  the loops are written on the sets: a path stays when it is a candidate, a directory
  outside the candidates leaves \<^verbatim>\<open>w.dirs\<close> and is removed from the primitive when the
  primitive accepts (the error of \<^verbatim>\<open>Remove\<close> is dropped).
\<close>

definition removeAll_fs :: "os \<Rightarrow> string set \<Rightarrow> fsnotify \<Rightarrow> fsnotify" where
  "removeAll_fs sys ds f = f\<lparr>registered := registered f - {d \<in> ds. RemoveErr sys d = None}\<rparr>"

definition Watch :: "os \<Rightarrow> string list \<Rightarrow> watcher \<Rightarrow> error option \<times> watcher" where
  "Watch sys ps w =
     (case evalAll sys ps of
        Inl e \<Rightarrow> (Some e, w)
      | Inr rs \<Rightarrow>
          (case addLoop sys rs (w, {}, {}) of
             (w1, candidateDirs, candidates) \<Rightarrow>
               (let w2 = w1\<lparr>paths := paths w1 \<inter> candidates\<rparr>;
                    w3 = w2\<lparr>dirs := dirs w2 \<inter> candidateDirs,
                            fsw := removeAll_fs sys (dirs w2 - candidateDirs) (fsw w2)\<rparr>
                in (None, w3))))"

text \<open>A system where every path resolves to itself and nothing fails.\<close>

definition plainOs :: os where
  "plainOs = \<lparr>EvalSymlinks = Inr, StatOk = (\<lambda>p. p \<noteq> []), AddErr = (\<lambda>d. None),
              RemoveErr = (\<lambda>d. None)\<rparr>"

text \<open>A system where the path \<^verbatim>\<open>gone\<close> does not resolve.\<close>

definition goneOs :: os where
  "goneOs = plainOs\<lparr>EvalSymlinks :=
     (\<lambda>p. if p = ''gone'' then Inl (ErrNotExist ''gone'') else Inr p)\<rparr>"

subsection \<open>\<^verbatim>\<open>strings.TrimSpace\<close> and \<^verbatim>\<open>strings.TrimSuffix\<close> on the bytes of a string\<close>

text \<open>
  Go trims the runes that \<^verbatim>\<open>unicode.IsSpace\<close> accepts: the six ASCII ones, U+0085,
  U+00A0, U+1680, U+2000 to U+200A, U+2028, U+2029, U+202F, U+205F and U+3000, each in
  its UTF-8 encoding. \<open>spaceWidth\<close> is the width in bytes of the white-space rune the
  bytes start with, 0 when they start with none; \<open>spaceWidthRev\<close> reads a reversed
  string, last byte first.
\<close>

definition asciiSpace :: "char \<Rightarrow> bool" where
  "asciiSpace c = (c \<in> set [CHR 0x09, CHR 0x0A, CHR 0x0B, CHR 0x0C, CHR 0x0D, CHR 0x20])"

definition generalPunctuationSpace :: "char \<Rightarrow> bool" where
  "generalPunctuationSpace c =
     (c \<in> set [CHR 0x80, CHR 0x81, CHR 0x82, CHR 0x83, CHR 0x84, CHR 0x85, CHR 0x86,
               CHR 0x87, CHR 0x88, CHR 0x89, CHR 0x8A, CHR 0xA8, CHR 0xA9, CHR 0xAF])"

fun spaceWidth :: "string \<Rightarrow> nat" where
  "spaceWidth [] = 0"
| "spaceWidth (c # cs) =
     (if asciiSpace c then 1
      else if c = CHR 0xC2 \<and> (take 1 cs = [CHR 0x85] \<or> take 1 cs = [CHR 0xA0]) then 2
      else if c = CHR 0xE1 \<and> take 2 cs = [CHR 0x9A, CHR 0x80] then 3
      else if c = CHR 0xE2 \<and> take 1 cs = [CHR 0x80]
              \<and> (case drop 1 cs of [] \<Rightarrow> False | d # _ \<Rightarrow> generalPunctuationSpace d) then 3
      else if c = CHR 0xE2 \<and> take 2 cs = [CHR 0x81, CHR 0x9F] then 3
      else if c = CHR 0xE3 \<and> take 2 cs = [CHR 0x80, CHR 0x80] then 3
      else 0)"

fun spaceWidthRev :: "string \<Rightarrow> nat" where
  "spaceWidthRev [] = 0"
| "spaceWidthRev (c # cs) =
     (if asciiSpace c then 1
      else if (c = CHR 0x85 \<or> c = CHR 0xA0) \<and> take 1 cs = [CHR 0xC2] then 2
      else if c = CHR 0x80 \<and> take 2 cs = [CHR 0x9A, CHR 0xE1] then 3
      else if generalPunctuationSpace c \<and> take 2 cs = [CHR 0x80, CHR 0xE2] then 3
      else if c = CHR 0x9F \<and> take 2 cs = [CHR 0x81, CHR 0xE2] then 3
      else if c = CHR 0x80 \<and> take 2 cs = [CHR 0x80, CHR 0xE3] then 3
      else 0)"

function trimLeft :: "string \<Rightarrow> string" where
  "trimLeft s = (if spaceWidth s = 0 then s else trimLeft (drop (spaceWidth s) s))"
  by pat_completeness auto
termination
proof (relation "measure length")
  show "wf (measure length)" by simp
next
  fix s :: string
  assume w: "spaceWidth s \<noteq> 0"
  then have "s \<noteq> []" by (cases s) simp_all
  with w show "(drop (spaceWidth s) s, s) \<in> measure length" by simp
qed

function trimLeftRev :: "string \<Rightarrow> string" where
  "trimLeftRev s = (if spaceWidthRev s = 0 then s else trimLeftRev (drop (spaceWidthRev s) s))"
  by pat_completeness auto
termination
proof (relation "measure length")
  show "wf (measure length)" by simp
next
  fix s :: string
  assume w: "spaceWidthRev s \<noteq> 0"
  then have "s \<noteq> []" by (cases s) simp_all
  with w show "(drop (spaceWidthRev s) s, s) \<in> measure length" by simp
qed

definition TrimSpace :: "string \<Rightarrow> string" where
  "TrimSpace s = rev (trimLeftRev (rev (trimLeft s)))"

definition TrimSuffix :: "string \<Rightarrow> string \<Rightarrow> string" where
  "TrimSuffix s suffix =
     (if length suffix \<le> length s \<and> drop (length s - length suffix) s = suffix
      then take (length s - length suffix) s else s)"

subsection \<open>\<^verbatim>\<open>bufio.Scanner\<close> with its default split function and buffer\<close>

text \<open>
  One call of \<^verbatim>\<open>Scan\<close> followed by \<^verbatim>\<open>Text\<close>: the bytes up to the next newline
  (or to the end of a last line that has none), without one trailing carriage return,
  and the input that remains. The scanner stops at the end of the input, and also at a
  line that does not fit its buffer of \<open>MaxScanTokenSize\<close> bytes together with its
  newline (\<^verbatim>\<open>ErrTooLong\<close>, which the caller never reads).
\<close>

definition MaxScanTokenSize :: nat where
  "MaxScanTokenSize = 64 * 1024"

definition dropCR :: "string \<Rightarrow> string" where
  "dropCR l = (if l \<noteq> [] \<and> last l = CHR 0x0D then butlast l else l)"

definition scanLine :: "string \<Rightarrow> (string \<times> string) option" where
  "scanLine b =
     (if b = [] then None
      else let l = takeWhile (\<lambda>c. c \<noteq> CHR 0x0A) b;
               r = dropWhile (\<lambda>c. c \<noteq> CHR 0x0A) b
           in if MaxScanTokenSize \<le> length l then None else Some (dropCR l, drop 1 r))"

subsection \<open>\<^verbatim>\<open>parseDependeniesToDirs\<close>\<close>

text \<open>
  The map \<^verbatim>\<open>m\<close> is a list without duplicates; the last loop appends its keys to the
  result in the order Go's \<^verbatim>\<open>range\<close> yields them, which Go leaves open: the list is
  one such order, and only its elements are meant.
\<close>

function scanLoop :: "os \<Rightarrow> string \<Rightarrow> string list \<Rightarrow> string list" where
  "scanLoop sys b m =
     (case scanLine b of
        None \<Rightarrow> m
      | Some (t, rest) \<Rightarrow>
          (let p = TrimSuffix (TrimSpace t) '':''
           in scanLoop sys rest (if StatOk sys p then List.insert p m else m)))"
  by pat_completeness auto
termination
proof (relation "measure (\<lambda>(sys, b, m). length b)")
  show "wf (measure (\<lambda>(sys :: os, b :: string, m :: string list). length b))" by simp
next
  fix sys :: os and b :: string and m :: "string list" and x2 t rest p
  assume a: "scanLine b = Some x2" "(t, rest) = x2"
  then have ne: "b \<noteq> []" by (auto simp: scanLine_def)
  from a have r: "rest = drop 1 (dropWhile (\<lambda>c. c \<noteq> CHR 0x0A) b)"
    by (auto simp: scanLine_def Let_def split: if_splits)
  have "length (dropWhile (\<lambda>c. c \<noteq> CHR 0x0A) b) \<le> length b"
    by (rule length_dropWhile_le)
  with ne r have "length rest < length b"
    by (cases "dropWhile (\<lambda>c. c \<noteq> CHR 0x0A) b") auto
  then show "((sys, rest, if StatOk sys p then List.insert p m else m), sys, b, m)
               \<in> measure (\<lambda>(sys, b, m). length b)"
    by simp
qed

declare scanLoop.simps [simp del]

definition parseDependeniesToDirs :: "os \<Rightarrow> string \<Rightarrow> string list" where
  "parseDependeniesToDirs sys b = scanLoop sys b []"

subsection \<open>\<^verbatim>\<open>updateWatcher\<close>\<close>

text \<open>
  A context is live or cancelled. The analyzer is what one run of \<^verbatim>\<open>updateWatcher\<close>
  meets outside the watcher: whether \<^verbatim>\<open>os.CreateTemp\<close> succeeds, whether the analyzer
  command started under a given context runs without error, and what \<^verbatim>\<open>os.ReadFile\<close>
  gives for the dependency file (\<open>None\<close> is its error).
\<close>

datatype "context" = Live | Cancelled

record analyzer =
  CreateTempOk :: bool
  RunOk :: "context \<Rightarrow> bool"
  ReadFile :: "string option"

datatype message =
    FailedToUpdateWatcher error
  | FileModified string
  | WatchError error

text \<open>
  \<open>gatherPaths\<close> is the function up to line 202: \<open>None\<close> is the \<^verbatim>\<open>return\<close> of line
  199, \<open>Some ps\<close> the value of \<^verbatim>\<open>paths\<close> otherwise. The analyzer is started with
  \<^verbatim>\<open>ctx\<close>, the context of the command; the parameter \<^verbatim>\<open>runCtx\<close> is not read.
\<close>

definition gatherPaths :: "os \<Rightarrow> analyzer \<Rightarrow> context \<Rightarrow> watcher \<Rightarrow> string list option" where
  "gatherPaths sys an ctx w =
     (if CreateTempOk an then
        (if RunOk an ctx then
           Some (case ReadFile an of Some b \<Rightarrow> parseDependeniesToDirs sys b | None \<Rightarrow> [])
         else if CountPaths w > 0 then None else Some [])
      else Some [])"

definition updateWatcher ::
  "os \<Rightarrow> analyzer \<Rightarrow> string \<Rightarrow> context \<Rightarrow> context \<Rightarrow> watcher \<Rightarrow> watcher \<times> message list" where
  "updateWatcher sys an entrypoint ctx runCtx w =
     (case gatherPaths sys an ctx w of
        None \<Rightarrow> (w, [])
      | Some ps \<Rightarrow>
          (let ps' = (if length ps = 0 then [Dir entrypoint] else ps)
           in case Watch sys ps' w of
                (Some e, w') \<Rightarrow> (w', [FailedToUpdateWatcher e])
              | (None, w') \<Rightarrow> (w', [])))"

subsection \<open>The loop of \<^verbatim>\<open>onWatchChanges\<close>\<close>

text \<open>
  An fsnotify event has a name and a bit mask of operations (\<^verbatim>\<open>Create\<close> is 1,
  \<^verbatim>\<open>Write\<close> 2, \<^verbatim>\<open>Remove\<close> 4, \<^verbatim>\<open>Rename\<close> 8, \<^verbatim>\<open>Chmod\<close> 16).
\<close>

record event =
  Name :: string
  Op :: "32 word"

definition Write :: "32 word" where
  "Write = 2"

text \<open>What one \<^verbatim>\<open>select\<close> receives; the flag is the \<^verbatim>\<open>ok\<close> of the receive.\<close>

datatype select_case =
    RecvEvent event bool
  | RecvTick
  | RecvError error bool
  | RecvDone

text \<open>
  The contexts made by \<^verbatim>\<open>context.WithCancel(ctx)\<close> are numbered in the order of their
  creation, \<^verbatim>\<open>firstCtx\<close> being 0: a generation is that number. The loop leaves a trace
  of what it does to the world outside its own variables.
\<close>

datatype effect =
    Print message
  | Cancel nat
  | GoUpdateWatcher nat
  | RunOnDevice nat
  | ResetTicker

text \<open>
  \<open>generation\<close> is the context that \<^verbatim>\<open>previousCancel\<close> cancels, \<open>returned\<close> says
  that the loop has left its \<^verbatim>\<open>for\<close>.
\<close>

record coordinator =
  fired :: bool
  generation :: nat
  effects :: "effect list"
  returned :: bool

text \<open>Lines 220 to 222 and the first assignment of the returned function.\<close>

definition startLoop :: coordinator where
  "startLoop = \<lparr>fired = False, generation = 0,
                effects = [GoUpdateWatcher 0, RunOnDevice 0], returned = False\<rparr>"

text \<open>Lines 241 to 248.\<close>

definition trigger :: "string \<Rightarrow> coordinator \<Rightarrow> coordinator" where
  "trigger name l =
     l\<lparr>effects := effects l @
          [Print (FileModified name), Cancel (generation l),
           GoUpdateWatcher (Suc (generation l)), RunOnDevice (Suc (generation l)),
           ResetTicker],
       generation := Suc (generation l),
       fired := True\<rparr>"

fun loopStep :: "watcher \<Rightarrow> coordinator \<Rightarrow> select_case \<Rightarrow> coordinator" where
  "loopStep w l (RecvEvent ev ok) =
     (if \<not> ok then l\<lparr>returned := True\<rparr>
      else if Name ev \<notin> paths w then l
      else if Op ev AND Write = Write then (if \<not> fired l then trigger (Name ev) l else l)
      else l)"
| "loopStep w l RecvTick = l\<lparr>fired := False\<rparr>"
| "loopStep w l (RecvError e ok) =
     (if \<not> ok then l\<lparr>returned := True\<rparr>
      else l\<lparr>effects := effects l @ [Print (WatchError e)]\<rparr>)"
| "loopStep w l RecvDone = l\<lparr>returned := True\<rparr>"

subsection \<open>The loop and the goroutines it starts\<close>

text \<open>
  The loop and every \<^verbatim>\<open>updateWatcher\<close> it started share the watcher. An action is one
  \<^verbatim>\<open>select\<close> of the loop, or the run of the \<^verbatim>\<open>updateWatcher\<close> of a generation, taken
  as one step (\<^verbatim>\<open>Watch\<close> holds the mutex), with the system and the analyzer it meets
  and the state of the command's context at that moment. The context of a generation is
  cancelled once its cancel function was called or the command's context is.
\<close>

datatype action =
    Select select_case
  | Probe nat os analyzer "context"

record system =
  loop :: coordinator
  wat :: watcher
  entrypoint :: string

definition scope :: "coordinator \<Rightarrow> nat \<Rightarrow> context \<Rightarrow> context" where
  "scope l g ctx = (if Cancel g \<in> set (effects l) \<or> ctx = Cancelled then Cancelled else Live)"

fun step :: "system \<Rightarrow> action \<Rightarrow> system" where
  "step s (Select c) =
     (if returned (loop s) then s else s\<lparr>loop := loopStep (wat s) (loop s) c\<rparr>)"
| "step s (Probe g sys an ctx) =
     (if GoUpdateWatcher g \<notin> set (effects (loop s)) then s
      else case updateWatcher sys an (entrypoint s) ctx (scope (loop s) g ctx) (wat s) of
             (w', out) \<Rightarrow>
               s\<lparr>wat := w', loop := (loop s)\<lparr>effects := effects (loop s) @ map Print out\<rparr>\<rparr>)"

definition startSystem :: "string \<Rightarrow> system" where
  "startSystem entry = \<lparr>loop = startLoop, wat = newWatcher, entrypoint = entry\<rparr>"

definition run :: "system \<Rightarrow> action list \<Rightarrow> system" where
  "run s as = foldl step s as"

subsection \<open>The ticker\<close>

text \<open>
  Time is counted in milliseconds. The ticker of the loop ticks every \<open>ticketDuration\<close>,
  and \<^verbatim>\<open>ticker.Reset\<close> moves the next tick to one period after the call. An action
  that arrives at time \<open>t\<close> is taken at \<open>t\<close>, after the tick that was due by then
  (a second tick due by then would find \<^verbatim>\<open>fired\<close> already false).
\<close>

definition ticketDuration :: nat where
  "ticketDuration = 100"

record timed =
  tsys :: system
  tickAt :: nat

definition deliverTick :: "nat \<Rightarrow> timed \<Rightarrow> timed" where
  "deliverTick t ts =
     (if tickAt ts \<le> t
      then \<lparr>tsys = step (tsys ts) (Select RecvTick),
            tickAt = tickAt ts + ticketDuration * ((t - tickAt ts) div ticketDuration + 1)\<rparr>
      else ts)"

definition timedStep :: "timed \<Rightarrow> nat \<times> action \<Rightarrow> timed" where
  "timedStep ts ta =
     (let t = fst ta;
          ts1 = deliverTick t ts;
          s2 = step (tsys ts1) (snd ta)
      in \<lparr>tsys = s2,
          tickAt = (if generation (loop s2) \<noteq> generation (loop (tsys ts1))
                    then t + ticketDuration else tickAt ts1)\<rparr>)"

definition startTimed :: "string \<Rightarrow> timed" where
  "startTimed entry = \<lparr>tsys = startSystem entry, tickAt = ticketDuration\<rparr>"

definition runTimed :: "timed \<Rightarrow> (nat \<times> action) list \<Rightarrow> timed" where
  "runTimed ts tas = foldl timedStep ts tas"

text \<open>The generations started by the action at position \<open>i\<close> of a timed run.\<close>

definition triggeredAt :: "string \<Rightarrow> (nat \<times> action) list \<Rightarrow> nat \<Rightarrow> nat" where
  "triggeredAt entry tas i =
     generation (loop (tsys (runTimed (startTimed entry) (take (Suc i) tas))))
     - generation (loop (tsys (runTimed (startTimed entry) (take i tas))))"

subsection \<open>The start of \<^verbatim>\<open>WatchCmd\<close>\<close>

text \<open>
  What the calls of \<^verbatim>\<open>RunE\<close> before the loop answer: each helper of the package by its
  error, \<^verbatim>\<open>os.Stat\<close> on the entrypoint by one of four cases.
\<close>

datatype stat = StatNotExist | StatFails error | StatIsDir | StatIsFile

record startup =
  AssetsErr :: "error option"
  StatEntry :: stat
  DeviceFlagErr :: "error option"
  SdkErr :: "error option"
  DeviceErr :: "error option"
  OptLevelChanged :: bool
  OptLevelErr :: "error option"
  NewWatcherErr :: "error option"

text \<open>
  \<open>ReturnedEarly\<close>: \<^verbatim>\<open>RunE\<close> returned the error before it called \<^verbatim>\<open>newWatcher\<close>;
  \<open>NoWatcher\<close>: \<^verbatim>\<open>newWatcher\<close> failed; \<open>Watching\<close>: the watcher exists and the loop
  starts in that state.
\<close>

datatype outcome = ReturnedEarly error | NoWatcher error | Watching system

definition RunE :: "startup \<Rightarrow> string \<Rightarrow> outcome" where
  "RunE st entry =
     (case AssetsErr st of Some e \<Rightarrow> ReturnedEarly e | None \<Rightarrow>
      (case StatEntry st of
         StatNotExist \<Rightarrow> ReturnedEarly (ErrNoSuchFile entry)
       | StatFails e \<Rightarrow> ReturnedEarly (ErrCantStat entry e)
       | StatIsDir \<Rightarrow> ReturnedEarly (ErrCantWatchDir entry)
       | StatIsFile \<Rightarrow>
      (case DeviceFlagErr st of Some e \<Rightarrow> ReturnedEarly e | None \<Rightarrow>
      (case SdkErr st of Some e \<Rightarrow> ReturnedEarly e | None \<Rightarrow>
      (case DeviceErr st of Some e \<Rightarrow> ReturnedEarly e | None \<Rightarrow>
      (case (if OptLevelChanged st then OptLevelErr st else None) of
         Some e \<Rightarrow> ReturnedEarly e | None \<Rightarrow>
      (case NewWatcherErr st of Some e \<Rightarrow> NoWatcher e | None \<Rightarrow>
       Watching (startSystem entry))))))))"

section \<open>The watch set\<close>

lemma evalAll_Inl:
  "evalAll sys ps = Inl e \<Longrightarrow> \<exists>q \<in> set ps. EvalSymlinks sys q = Inl e"
  by (induction ps) (auto split: sum.splits)

lemma evalAll_fails:
  "p \<in> set ps \<Longrightarrow> EvalSymlinks sys p = Inl e \<Longrightarrow> \<exists>e'. evalAll sys ps = Inl e'"
  by (induction ps) (auto split: sum.splits)

text \<open>
  Claim C10. When symbolic-link resolution fails for an input path, \<^verbatim>\<open>Watch\<close> returns
  the error of a path that failed and the watcher (paths, dirs and the registrations of
  the primitive) is the one it was given.
\<close>

theorem Watch_error_atomic:
  assumes "p \<in> set ps" and "EvalSymlinks sys p = Inl e"
  shows "\<exists>e'. Watch sys ps w = (Some e', w) \<and> (\<exists>q \<in> set ps. EvalSymlinks sys q = Inl e')"
proof -
  from assms obtain e' where e': "evalAll sys ps = Inl e'"
    using evalAll_fails by blast
  then have "Watch sys ps w = (Some e', w)"
    by (simp add: Watch_def)
  with evalAll_Inl [OF e'] show ?thesis by blast
qed

theorem Watch_error_atomic_witness:
  "\<exists>e'. Watch goneOs [''main.toit'', ''gone''] newWatcher = (Some e', newWatcher)
        \<and> (\<exists>q \<in> set [''main.toit'', ''gone'']. EvalSymlinks goneOs q = Inl e')"
proof -
  have m: "''gone'' \<in> set [''main.toit'', ''gone'']" by simp
  have f: "EvalSymlinks goneOs ''gone'' = Inl (ErrNotExist ''gone'')"
    by (simp add: goneOs_def)
  show ?thesis using Watch_error_atomic [OF m f] .
qed

lemma Dir_lib_a: "Dir ''lib/a.toit'' = ''lib''"
  by (simp add: Dir_def Clean_def)

lemma Dir_lib_b: "Dir ''lib/b.toit'' = ''lib''"
  by (simp add: Dir_def Clean_def)

lemma Dir_src_c: "Dir ''src/c.toit'' = ''src''"
  by (simp add: Dir_def Clean_def)

lemma Dir_main: "Dir ''main.toit'' = ''.''"
  by (simp add: Dir_def Clean_def)

text \<open>The second loop never writes \<^verbatim>\<open>w.dirs\<close>, so \<^verbatim>\<open>Watch\<close> can only shrink it.\<close>

lemma addLoop_dirs: "dirs (fst (addLoop sys ps (w, cd, c))) = dirs w"
  by (induction ps arbitrary: w cd c) (simp_all add: Let_def)

lemma Watch_dirs_subset: "dirs (snd (Watch sys ps w)) \<subseteq> dirs w"
proof (cases "evalAll sys ps")
  case (Inl e)
  then show ?thesis by (simp add: Watch_def)
next
  case (Inr rs)
  obtain w1 cd c where a: "addLoop sys rs (w, {}, {}) = (w1, cd, c)"
    by (cases "addLoop sys rs (w, {}, {})") auto
  have "dirs w1 = dirs w"
    using addLoop_dirs [of sys rs w "{}" "{}"] a by simp
  then show ?thesis using Inr a by (simp add: Watch_def Let_def)
qed

lemma Watch_dirs_stay_empty: "dirs w = {} \<Longrightarrow> dirs (snd (Watch sys ps w)) = {}"
  using Watch_dirs_subset [of sys ps w] by auto

text \<open>
  Claim C1. After a successful \<^verbatim>\<open>Watch\<close> the directories set should be the set of the
  directories of the relevant paths, no directory should be registered twice, and no
  directory should stay registered without a relevant path in it. The code does not do
  so: on a new watcher, \<^verbatim>\<open>Watch("lib/a.toit", "lib/b.toit")\<close> succeeds and leaves
  \<^verbatim>\<open>dirs\<close> empty after adding \<^verbatim>\<open>lib\<close> to the primitive twice, and a following
  \<^verbatim>\<open>Watch("src/c.toit")\<close> leaves \<^verbatim>\<open>lib\<close> registered.
\<close>

theorem Watch_never_fills_dirs:
  "Watch plainOs [''lib/a.toit'', ''lib/b.toit''] newWatcher =
     (None, \<lparr>fsw = \<lparr>registered = {''lib''}, adds = [''lib'', ''lib'']\<rparr>, dirs = {},
             paths = {''lib/a.toit'', ''lib/b.toit''}\<rparr>)
   \<and> Watch plainOs [''src/c.toit''] (snd (Watch plainOs [''lib/a.toit''] newWatcher)) =
     (None, \<lparr>fsw = \<lparr>registered = {''src'', ''lib''}, adds = [''lib'', ''src'']\<rparr>, dirs = {},
             paths = {''src/c.toit''}\<rparr>)"
  by (simp add: Watch_def plainOs_def newWatcher_def Dir_lib_a Dir_lib_b Dir_src_c fsAdd_def
      removeAll_fs_def Let_def insert_commute)

text \<open>
  Claim C5. A second \<^verbatim>\<open>Watch\<close> with the same paths should leave the state as it is and
  register nothing again. The code keeps \<^verbatim>\<open>paths\<close> and \<^verbatim>\<open>dirs\<close>, and adds the
  directory to the primitive a second time: after \<^verbatim>\<open>Watch("lib/a.toit")\<close> twice the calls
  of \<^verbatim>\<open>Add\<close> are \<^verbatim>\<open>lib\<close>, \<^verbatim>\<open>lib\<close>.
\<close>

theorem Watch_twice_adds_again:
  "Watch plainOs [''lib/a.toit''] newWatcher =
     (None, \<lparr>fsw = \<lparr>registered = {''lib''}, adds = [''lib'']\<rparr>, dirs = {},
             paths = {''lib/a.toit''}\<rparr>)
   \<and> Watch plainOs [''lib/a.toit''] (snd (Watch plainOs [''lib/a.toit''] newWatcher)) =
     (None, \<lparr>fsw = \<lparr>registered = {''lib''}, adds = [''lib'', ''lib'']\<rparr>, dirs = {},
             paths = {''lib/a.toit''}\<rparr>)"
  by (simp add: Watch_def plainOs_def newWatcher_def Dir_lib_a fsAdd_def removeAll_fs_def Let_def)

section \<open>The start of the command\<close>

text \<open>
  Claim C9. When the entrypoint does not exist or is a directory, \<^verbatim>\<open>RunE\<close> returns an
  error before \<^verbatim>\<open>newWatcher\<close> is called; unless the assets flag already failed, the
  error is the one of the entrypoint.
\<close>

theorem entrypoint_errors_fatal:
  assumes "StatEntry st = StatNotExist \<or> StatEntry st = StatIsDir"
  shows "(\<exists>e. RunE st entry = ReturnedEarly e)
       \<and> (AssetsErr st = None \<longrightarrow>
            RunE st entry = ReturnedEarly (if StatEntry st = StatNotExist then ErrNoSuchFile entry
                                          else ErrCantWatchDir entry))"
  using assms by (auto simp: RunE_def split: option.splits)

theorem entrypoint_errors_fatal_witness:
  "RunE \<lparr>AssetsErr = None, StatEntry = StatNotExist, DeviceFlagErr = None, SdkErr = None,
         DeviceErr = None, OptLevelChanged = False, OptLevelErr = None, NewWatcherErr = None\<rparr>
     ''main.toit'' = ReturnedEarly (ErrNoSuchFile ''main.toit'')
   \<and> RunE \<lparr>AssetsErr = None, StatEntry = StatIsDir, DeviceFlagErr = None, SdkErr = None,
         DeviceErr = None, OptLevelChanged = False, OptLevelErr = None, NewWatcherErr = None\<rparr>
     ''lib'' = ReturnedEarly (ErrCantWatchDir ''lib'')"
  using entrypoint_errors_fatal [of "\<lparr>AssetsErr = None, StatEntry = StatNotExist,
          DeviceFlagErr = None, SdkErr = None, DeviceErr = None, OptLevelChanged = False,
          OptLevelErr = None, NewWatcherErr = None\<rparr>" "''main.toit''"]
        entrypoint_errors_fatal [of "\<lparr>AssetsErr = None, StatEntry = StatIsDir,
          DeviceFlagErr = None, SdkErr = None, DeviceErr = None, OptLevelChanged = False,
          OptLevelErr = None, NewWatcherErr = None\<rparr>" "''lib''"]
  by simp

end
